theory Spec2Isabelle
  imports Main "HOL-Library.AList"
begin

unbundle bit_operations_syntax

section \<open>Python strings\<close>

text \<open>
  A Python \<open>str\<close> is a sequence of code points. The model is \<open>string\<close>, one
  \<open>char\<close> per code point, which covers the code points U+0000 to U+00FF;
  \<open>length\<close> is Python's \<open>len\<close>. The functions below are \<open>str.isspace\<close>,
  \<open>str.strip()\<close> and \<open>str.lower()\<close> on that range.
\<close>

definition isspace :: "char \<Rightarrow> bool" where
  "isspace c =
     (let n = (of_char c :: nat)
      in (9 \<le> n \<and> n \<le> 13) \<or> (28 \<le> n \<and> n \<le> 32) \<or> n = 133 \<or> n = 160)"

definition strip :: "string \<Rightarrow> string" where
  "strip s = rev (dropWhile isspace (rev (dropWhile isspace s)))"

definition lower_char :: "char \<Rightarrow> char" where
  "lower_char c =
     (let n = (of_char c :: nat)
      in if (65 \<le> n \<and> n \<le> 90) \<or> (192 \<le> n \<and> n \<le> 222 \<and> n \<noteq> 215)
         then char_of (n + 32) else c)"

definition lower :: "string \<Rightarrow> string" where
  "lower s = map lower_char s"

text \<open>The slice \<open>s[:k]\<close>: a negative \<open>k\<close> counts from the end.\<close>

definition slice_to :: "string \<Rightarrow> int \<Rightarrow> string" where
  "slice_to s k =
     (if 0 \<le> k then take (nat k) s else take (nat (int (length s) + k)) s)"

text \<open>\<open>str(n)\<close> of a non-negative integer.\<close>

fun str :: "nat \<Rightarrow> string" where
  "str n = (if n < 10 then [char_of (48 + n)] else str (n div 10) @ [char_of (48 + n mod 10)])"

declare str.simps [simp del]

text \<open>\<open>s.encode('utf-16-le')\<close> on the modelled range: each code point is one 16-bit
  unit, low byte first. Bytes are numbers below 256.\<close>

definition encode_utf_16_le :: "string \<Rightarrow> nat list" where
  "encode_utf_16_le s = concat (map (\<lambda>c. [of_char c, 0]) s)"


section \<open>Directory values and operations\<close>

text \<open>
  Attribute values as ldap3 hands them over and takes them: strings, integers, byte
  strings and lists. A modification is ldap3's pair of an operation and a list of
  values; the dictionary passed to \<open>modify\<close> maps an attribute name to a list of
  modifications. Python dictionaries keep insertion order and assigning to a key that
  is present replaces its value in place, which is \<open>AList.update\<close>.
\<close>

datatype pyval = VStr string | VInt int | VBytes "nat list" | VList "pyval list"

datatype mod_op = MODIFY_ADD | MODIFY_DELETE | MODIFY_REPLACE

type_synonym changes = "(string \<times> (mod_op \<times> pyval list) list) list"

type_synonym attributes = "(string \<times> pyval) list"

text \<open>What a call to the directory does: it returns, raises an
  \<open>LDAPException\<close>, or raises another exception.\<close>

datatype 'a outcome = Returns 'a | Raises_LDAPException | Raises_Exception

datatype ldap_op = Add string attributes | Modify string changes | Unbind

text \<open>The connection \<open>create_user\<close> opens to port 636 for writing.\<close>

record write_conn =
  add :: "string \<Rightarrow> attributes \<Rightarrow> bool outcome"
  write_modify :: "string \<Rightarrow> changes \<Rightarrow> bool outcome"

text \<open>
  The ldap3 connection, as far as the program uses it. \<open>default_naming_context\<close>
  is \<open>ldap_conn.server.info.other['defaultNamingContext'][0]\<close>, \<open>None\<close> when
  reading it raises. \<open>search conn base filter\<close> is the list \<open>ldap_conn.entries\<close>
  left by \<open>ldap_conn.search\<close> with that base and filter (subtree scope), \<open>None\<close>
  when the call raises. \<open>modify\<close> is \<open>ldap_conn.modify\<close>. \<open>ssl_connection\<close> is
  what binding a new \<open>Connection\<close> to the same host on port 636 with the same
  credentials gives. The directory does not change while a name is generated.
  A Python \<open>None\<close> in place of the connection is \<open>None :: connection option\<close>.
\<close>

record connection =
  default_naming_context :: "string option"
  search :: "string \<Rightarrow> string \<Rightarrow> string list option"
  modify :: "string \<Rightarrow> changes \<Rightarrow> bool outcome"
  ssl_connection :: "write_conn outcome"

definition sam_filter :: "string \<Rightarrow> string" where
  "sam_filter sam_account = ''(sAMAccountName='' @ sam_account @ '')''"


section \<open>src/helpers.py\<close>

text \<open>\<open>check_sam_account_exists\<close>: any exception gives \<open>False\<close>.\<close>

definition check_sam_account_exists :: "string \<Rightarrow> connection option \<Rightarrow> bool" where
  "check_sam_account_exists sam_account ldap_conn =
     (case ldap_conn of
        None \<Rightarrow> False
      | Some conn \<Rightarrow>
          (case search conn [] (sam_filter sam_account) of
             None \<Rightarrow> False
           | Some entries \<Rightarrow> entries \<noteq> []))"

text \<open>\<open>auto_generate_sam_account\<close> of src/helpers.py: up to three candidates, the
  first one not in the directory is returned.\<close>

definition root_candidates :: "string \<Rightarrow> string \<Rightarrow> string list" where
  "root_candidates first0 last0 =
     (let first = strip (lower first0);
          last' = strip (lower last0);
          cand1 = first @ ''.'' @ last';
          candidates1 = (if length cand1 \<le> 20 then [cand1] else []);
          cand2 = (if first \<noteq> [] then [hd first] @ ''.'' @ last' else []);
          candidates2 =
            (if cand2 \<noteq> [] \<and> length cand2 \<le> 20 \<and> cand2 \<notin> set candidates1
             then candidates1 @ [cand2] else candidates1);
          cand3 = (if 2 \<le> length first then take 2 first @ ''.'' @ last' else cand2);
          candidates3 =
            (if cand3 \<noteq> [] \<and> length cand3 \<le> 20 \<and> cand3 \<notin> set candidates2
             then candidates2 @ [cand3] else candidates2)
      in candidates3)"

definition root_auto_generate_sam_account ::
  "string \<Rightarrow> string \<Rightarrow> connection option \<Rightarrow> string option" where
  "root_auto_generate_sam_account first0 last0 ldap_conn =
     find (\<lambda>candidate. \<not> check_sam_account_exists candidate ldap_conn)
       (root_candidates first0 last0)"


section \<open>src/UserEditor/helpers.py\<close>

datatype error = IndexError | TypeError | AttributeError

definition encode_password :: "string \<Rightarrow> nat list" where
  "encode_password password = encode_utf_16_le (''\"'' @ password @ ''\"'')"

definition is_sam_account_unique :: "connection option \<Rightarrow> string \<Rightarrow> bool" where
  "is_sam_account_unique ldap_conn sam_account =
     (case ldap_conn of
        None \<Rightarrow> False
      | Some conn \<Rightarrow>
          if sam_account = [] then False
          else
            (case default_naming_context conn of
               None \<Rightarrow> False
             | Some base \<Rightarrow>
                 (case search conn base (sam_filter sam_account) of
                    None \<Rightarrow> False
                  | Some entries \<Rightarrow> length entries = 0)))"

definition valid_chars :: string where
  "valid_chars = ''abcdefghijklmnopqrstuvwxyz'' @ ''0123456789'' @ ''.-_''"

definition sanitize :: "string \<Rightarrow> string" where
  "sanitize candidate = map (\<lambda>c. if c \<in> set valid_chars then c else CHR ''.'') candidate"

text \<open>The body of the loop \<open>for attempt in range(1, max_attempts + 1)\<close>, over the
  attempts still to make.\<close>

definition numbered :: "string \<Rightarrow> nat \<Rightarrow> string" where
  "numbered candidate attempt =
     slice_to candidate (19 - int (length (str attempt))) @ str attempt"

definition new_candidate ::
  "string \<Rightarrow> string \<Rightarrow> string \<Rightarrow> connection option \<Rightarrow> nat \<Rightarrow> string" where
  "new_candidate first last' candidate ldap_conn attempt =
     (if attempt \<le> 2 then numbered candidate attempt
      else if 2 \<le> length first then
        (let two = slice_to (take 2 first @ ''.'' @ last') 20
         in if is_sam_account_unique ldap_conn two then two
            else
              (let suffix = attempt - 2
               in take 2 first @ ''.'' @ slice_to last' (17 - int (length (str suffix)))
                    @ str suffix))
      else numbered candidate attempt)"

fun variations ::
  "string \<Rightarrow> string \<Rightarrow> string \<Rightarrow> connection option \<Rightarrow> nat list \<Rightarrow> string option" where
  "variations first last' candidate ldap_conn [] = None"
| "variations first last' candidate ldap_conn (attempt # rest) =
     (let nc = new_candidate first last' candidate ldap_conn attempt
      in if is_sam_account_unique ldap_conn nc then Some nc
         else variations first last' candidate ldap_conn rest)"

definition auto_generate_sam_account ::
  "string \<Rightarrow> string \<Rightarrow> connection option \<Rightarrow> nat \<Rightarrow> error + string option" where
  "auto_generate_sam_account first0 last0 ldap_conn max_attempts =
     (if first0 = [] \<or> last0 = [] \<or> ldap_conn = None then Inr None
      else
        (let first = lower (strip first0);
             last' = lower (strip last0)
         in case first of
              [] \<Rightarrow> Inl IndexError
            | f # _ \<Rightarrow>
                (let candidate0 = [f] @ ''.'' @ last';
                     candidate1 =
                       (if 20 < length candidate0 then slice_to candidate0 20 else candidate0);
                     candidate = sanitize candidate1
                 in if is_sam_account_unique ldap_conn candidate then Inr (Some candidate)
                    else Inr (variations first last' candidate ldap_conn
                                [1 ..< max_attempts + 1]))))"


section \<open>src/UserEditor/user_window.py\<close>

datatype UserOperation = CREATE | EDIT

text \<open>
  The state of a \<open>UserWindow\<close> that \<open>auto_update_fields\<close>, \<open>create_user\<close> and
  \<open>save_changes\<close> read and write. A line edit is its \<open>text()\<close>, a check box its
  \<open>isChecked()\<close>, \<open>upn_suffix_combo\<close> its \<open>currentText()\<close>, \<open>ou_combo\<close> its
  \<open>currentData()\<close>. \<open>country_combo\<close> is the current item of the country box as
  (text, country code, country number), \<open>None\<close> when \<open>currentIndex()\<close> is -1.
  \<open>modified_attributes\<close> is the set of keys of the dictionary of that name.
  \<open>custom_attributes\<close> is \<open>attributes_tab.get_attributes()\<close>,
  \<open>selected_groups\<close> is \<open>groups_tab.get_selected_groups()\<close>, \<open>all_groups\<close> lists
  (name, dn) of \<open>groups_tab.all_groups\<close>, and \<open>manual_entry_reply\<close> is whether the
  user answers Yes to the question box of \<open>create_user\<close>.
\<close>

record user_window =
  ldap_conn :: "connection option"
  mode :: UserOperation
  user_dn :: string
  user_data :: "string \<rightharpoonup> pyval"
  modified_attributes :: "string set"
  first_name_edit :: string
  last_name_edit :: string
  display_name_edit :: string
  email_edit :: string
  phone_edit :: string
  mobile_edit :: string
  sam_account_edit :: string
  sam_account_has_focus :: bool
  upn_edit :: string
  upn_suffix_combo :: string
  ou_combo :: string
  password_edit :: string
  new_password_edit :: string
  confirm_password_edit :: string
  contractor_chk :: bool
  change_password_chk :: bool
  never_expires_chk :: bool
  disabled_chk :: bool
  pwd_never_expires_chk :: bool
  cannot_change_pwd_chk :: bool
  pwd_expired_chk :: bool
  job_title_edit :: string
  department_edit :: string
  company_edit :: string
  description_edit :: string
  street_edit :: string
  city_edit :: string
  state_edit :: string
  postal_edit :: string
  country_combo :: "(string \<times> string \<times> string) option"
  custom_attributes :: attributes
  selected_groups :: "string list"
  all_groups :: "(string \<times> string) list"
  manual_entry_reply :: bool
  status_label :: string

text \<open>The contractor suffix of \<open>auto_update_fields\<close> and \<open>create_user\<close>.\<close>

definition contractor_suffix :: "string \<Rightarrow> string" where
  "contractor_suffix candidate =
     (if 17 < length candidate then slice_to candidate 17 else candidate) @ ''-c''"

definition sync_upn_field :: "user_window \<Rightarrow> user_window" where
  "sync_upn_field w = w\<lparr>upn_edit := strip (sam_account_edit w)\<rparr>"

definition auto_update_fields :: "user_window \<Rightarrow> error + user_window" where
  "auto_update_fields w =
     (let first = strip (first_name_edit w);
          last' = strip (last_name_edit w);
          w1 = w\<lparr>display_name_edit := strip (first @ '' '' @ last')\<rparr>
      in if first \<noteq> [] \<and> last' \<noteq> [] \<and> \<not> sam_account_has_focus w \<and> mode w = CREATE
         then
           (case auto_generate_sam_account first last' (ldap_conn w) 5 of
              Inl e \<Rightarrow> Inl e
            | Inr None \<Rightarrow>
                Inr (sync_upn_field
                       (w1\<lparr>status_label := ''Could not generate a unique username''\<rparr>))
            | Inr (Some candidate0) \<Rightarrow>
                if candidate0 = [] then
                  Inr (sync_upn_field
                         (w1\<lparr>status_label := ''Could not generate a unique username''\<rparr>))
                else
                  (let candidate =
                         (if contractor_chk w then contractor_suffix candidate0
                          else candidate0)
                   in Inr (sync_upn_field
                             (w1\<lparr>sam_account_edit := candidate,
                                 status_label := ''Suggested username: '' @ candidate\<rparr>))))
         else Inr (sync_upn_field w1))"


subsection \<open>create_user\<close>

definition as_list :: "pyval \<Rightarrow> pyval list" where
  "as_list v = (case v of VList xs \<Rightarrow> xs | _ \<Rightarrow> [v])"

definition set_if_filled :: "string \<Rightarrow> string \<Rightarrow> attributes \<Rightarrow> attributes" where
  "set_if_filled attr text attributes =
     (if text \<noteq> [] then AList.update attr (VStr text) attributes else attributes)"

fun add_custom_attributes :: "attributes \<Rightarrow> attributes \<Rightarrow> attributes" where
  "add_custom_attributes [] attributes = attributes"
| "add_custom_attributes ((attr_name, v) # rest) attributes =
     (if attr_name \<in> fst ` set attributes then add_custom_attributes rest attributes
      else add_custom_attributes rest (AList.update attr_name (VList (as_list v)) attributes))"

definition new_user_attributes ::
  "user_window \<Rightarrow> string \<Rightarrow> string \<Rightarrow> string \<Rightarrow> string \<Rightarrow> string \<Rightarrow> string \<Rightarrow> attributes" where
  "new_user_attributes w first last' display_name sam_account upn password =
     (let a0 =
            [(''objectClass'',
                VList [VStr ''top'', VStr ''person'', VStr ''organizationalPerson'',
                       VStr ''user'']),
             (''cn'', VStr display_name),
             (''sn'', VStr last'),
             (''givenName'', VStr first),
             (''displayName'', VStr display_name),
             (''sAMAccountName'', VStr sam_account),
             (''userPrincipalName'', VStr upn),
             (''mail'', VStr upn),
             (''userAccountControl'', VInt 66048),
             (''unicodePwd'', VBytes (encode_password password))];
          a1 = set_if_filled ''title'' (strip (job_title_edit w)) a0;
          a2 = set_if_filled ''department'' (strip (department_edit w)) a1;
          a3 = set_if_filled ''company'' (strip (company_edit w)) a2;
          a4 = set_if_filled ''streetAddress'' (strip (street_edit w)) a3;
          a5 = set_if_filled ''l'' (strip (city_edit w)) a4;
          a6 = set_if_filled ''st'' (strip (state_edit w)) a5;
          a7 = set_if_filled ''postalCode'' (strip (postal_edit w)) a6;
          a8 =
            (case country_combo w of
               None \<Rightarrow> a7
             | Some (country_name, country_code, country_num) \<Rightarrow>
                 AList.update ''countryCode'' (VStr country_num)
                   (AList.update ''co'' (VStr country_name)
                      (AList.update ''c'' (VStr country_code) a7)))
      in add_custom_attributes (custom_attributes w) a8)"

text \<open>The loop over the selected groups: one \<open>modify\<close> for each group found in
  \<open>all_groups\<close>; an exception of that call is caught inside the loop.\<close>

fun add_to_groups :: "(string \<times> string) list \<Rightarrow> string \<Rightarrow> string list \<Rightarrow> ldap_op list" where
  "add_to_groups groups new_user_dn [] = []"
| "add_to_groups groups new_user_dn (group_name # rest) =
     (case map_of groups group_name of
        None \<Rightarrow> add_to_groups groups new_user_dn rest
      | Some group_dn \<Rightarrow>
          Modify group_dn [(''member'', [(MODIFY_ADD, [VStr new_user_dn])])]
            # add_to_groups groups new_user_dn rest)"

definition pwd_last_set :: changes where
  "pwd_last_set = [(''pwdLastSet'', [(MODIFY_REPLACE, [VInt 0])])]"

text \<open>The part of \<open>create_user\<close> inside \<open>try\<close>: the final status and the
  operations sent to the directory, in order.\<close>

definition write_new_user ::
  "user_window \<Rightarrow> connection \<Rightarrow> string \<Rightarrow> attributes \<Rightarrow> user_window \<times> ldap_op list" where
  "write_new_user w conn new_user_dn attributes =
     (case ssl_connection conn of
        Raises_LDAPException \<Rightarrow> (w\<lparr>status_label := ''LDAP error occurred''\<rparr>, [])
      | Raises_Exception \<Rightarrow> (w\<lparr>status_label := ''An unexpected error occurred''\<rparr>, [])
      | Returns wc \<Rightarrow>
          (case add wc new_user_dn attributes of
             Raises_LDAPException \<Rightarrow>
               (w\<lparr>status_label := ''LDAP error occurred''\<rparr>, [Add new_user_dn attributes])
           | Raises_Exception \<Rightarrow>
               (w\<lparr>status_label := ''An unexpected error occurred''\<rparr>,
                [Add new_user_dn attributes])
           | Returns False \<Rightarrow>
               (w\<lparr>status_label := ''Error creating user''\<rparr>,
                [Add new_user_dn attributes, Unbind])
           | Returns True \<Rightarrow>
               (let groups = add_to_groups (all_groups w) new_user_dn (selected_groups w)
                in if change_password_chk w then
                     (case write_modify wc new_user_dn pwd_last_set of
                        Raises_LDAPException \<Rightarrow>
                          (w\<lparr>status_label := ''LDAP error occurred''\<rparr>,
                           [Add new_user_dn attributes, Modify new_user_dn pwd_last_set])
                      | Raises_Exception \<Rightarrow>
                          (w\<lparr>status_label := ''An unexpected error occurred''\<rparr>,
                           [Add new_user_dn attributes, Modify new_user_dn pwd_last_set])
                      | Returns _ \<Rightarrow>
                          (w\<lparr>status_label := ''User created successfully''\<rparr>,
                           [Add new_user_dn attributes, Modify new_user_dn pwd_last_set]
                             @ groups @ [Unbind]))
                   else
                     (w\<lparr>status_label := ''User created successfully''\<rparr>,
                      [Add new_user_dn attributes] @ groups @ [Unbind]))))"

text \<open>The account name \<open>create_user\<close> goes on with: the one typed, or else the
  generated one, with the contractor suffix when that box is checked; \<open>Inr None\<close>
  when none could be generated.\<close>

definition sam_account_for :: "user_window \<Rightarrow> string \<Rightarrow> string \<Rightarrow> string \<Rightarrow> error + string option" where
  "sam_account_for w first last' sam_account =
     (if sam_account = [] then
        (case auto_generate_sam_account first last' (ldap_conn w) 5 of
           Inl e \<Rightarrow> Inl e
         | Inr None \<Rightarrow> Inr None
         | Inr (Some candidate) \<Rightarrow>
             Inr (Some (if contractor_chk w then contractor_suffix candidate else candidate)))
      else Inr (Some sam_account))"

definition create_user :: "user_window \<Rightarrow> error + user_window \<times> ldap_op list" where
  "create_user w =
     (let first = strip (first_name_edit w);
          last' = strip (last_name_edit w);
          display_name0 = strip (display_name_edit w);
          sam_account0 = strip (sam_account_edit w);
          upn_suffix = strip (upn_suffix_combo w);
          upn = upn_edit w @ upn_suffix;
          password = password_edit w;
          confirm_password = confirm_password_edit w;
          ou_dn = ou_combo w
      in if first = [] \<or> last' = [] \<or> password = [] \<or> confirm_password = [] then
           Inr (w\<lparr>status_label := ''Error: Missing required fields''\<rparr>, [])
         else if password \<noteq> confirm_password then
           Inr (w\<lparr>status_label := ''Error: Passwords do not match''\<rparr>, [])
         else
           (let display_name =
                  (if display_name0 = [] then first @ '' '' @ last' else display_name0);
                w1 = (if display_name0 = [] then w\<lparr>display_name_edit := display_name\<rparr> else w)
            in case sam_account_for w first last' sam_account0 of
                 Inl e \<Rightarrow> Inl e
               | Inr None \<Rightarrow>
                   if manual_entry_reply w then
                     Inr (w1\<lparr>status_label := ''Please enter a SAM account name manually''\<rparr>, [])
                   else Inr (w1\<lparr>status_label := ''Operation cancelled''\<rparr>, [])
               | Inr (Some sam_account) \<Rightarrow>
                   (let w2 =
                          (if sam_account0 = []
                           then w1\<lparr>sam_account_edit := sam_account, upn_edit := sam_account\<rparr>
                           else w1);
                        new_user_dn = ''CN='' @ display_name @ '','' @ ou_dn
                    in case ldap_conn w of
                         None \<Rightarrow> Inl AttributeError
                       | Some conn \<Rightarrow>
                           Inr (write_new_user w2 conn new_user_dn
                                  (new_user_attributes w first last' display_name sam_account
                                     upn password)))))"

subsection \<open>connect_change_signals\<close>

text \<open>The dictionary \<open>field_to_attr\<close>: a change of the text of the field marks the
  attribute as modified. The check boxes mark \<open>userAccountControl\<close> and
  \<open>pwdLastSet\<close>, the suffix box marks \<open>userPrincipalName\<close> and the country box
  marks \<open>country\<close>.\<close>

definition field_to_attr :: "((user_window \<Rightarrow> string) \<times> string) list" where
  "field_to_attr =
     [(first_name_edit, ''givenName''),
      (last_name_edit, ''sn''),
      (display_name_edit, ''displayName''),
      (email_edit, ''mail''),
      (phone_edit, ''telephoneNumber''),
      (mobile_edit, ''mobile''),
      (upn_edit, ''userPrincipalName''),
      (job_title_edit, ''title''),
      (department_edit, ''department''),
      (company_edit, ''company''),
      (description_edit, ''description''),
      (street_edit, ''streetAddress''),
      (city_edit, ''l''),
      (state_edit, ''st''),
      (postal_edit, ''postalCode'')]"

definition mark_as_modified :: "string \<Rightarrow> user_window \<Rightarrow> user_window" where
  "mark_as_modified attribute w =
     w\<lparr>modified_attributes := insert attribute (modified_attributes w)\<rparr>"

text \<open>The edit form computes \<open>uac & 2\<close> from the snapshot when the window is built,
  which raises unless the value is an integer (or absent, read as 0): every window
  that exists has such a snapshot.\<close>

definition uac_is_int :: "user_window \<Rightarrow> bool" where
  "uac_is_int w =
     (case user_data w ''userAccountControl'' of
        None \<Rightarrow> True
      | Some (VInt uac) \<Rightarrow> True
      | Some _ \<Rightarrow> False)"

definition snapshot_uac :: "user_window \<Rightarrow> int" where
  "snapshot_uac w =
     (case user_data w ''userAccountControl'' of Some (VInt uac) \<Rightarrow> uac | _ \<Rightarrow> 0)"

subsection \<open>save_changes\<close>

text \<open>\<open>if attr in self.modified_attributes: modifications[attr] = [(MODIFY_REPLACE, [v])]\<close>\<close>

definition replace_if_modified :: "user_window \<Rightarrow> string \<Rightarrow> pyval \<Rightarrow> changes \<Rightarrow> changes" where
  "replace_if_modified w attr v modifications =
     (if attr \<in> modified_attributes w
      then AList.update attr [(MODIFY_REPLACE, [v])] modifications else modifications)"

text \<open>The account-control flags from the check boxes, on the bitmask of the
  snapshot. \<open>|=\<close> and \<open>&=\<close> on a value that is not an integer raise \<open>TypeError\<close>.\<close>

definition uac_flags :: "user_window \<Rightarrow> int \<Rightarrow> int" where
  "uac_flags w uac =
     (let uac1 = (if disabled_chk w then uac OR 2 else uac AND NOT 2);
          uac2 = (if pwd_never_expires_chk w then uac1 OR 65536 else uac1 AND NOT 65536);
          uac3 = (if cannot_change_pwd_chk w then uac2 OR 64 else uac2 AND NOT 64)
      in uac3)"

definition uac_modification :: "user_window \<Rightarrow> changes \<Rightarrow> error + changes" where
  "uac_modification w modifications =
     (if ''userAccountControl'' \<in> modified_attributes w then
        (case user_data w ''userAccountControl'' of
           None \<Rightarrow>
             Inr (AList.update ''userAccountControl''
                    [(MODIFY_REPLACE, [VInt (uac_flags w 0)])] modifications)
         | Some (VInt uac) \<Rightarrow>
             Inr (AList.update ''userAccountControl''
                    [(MODIFY_REPLACE, [VInt (uac_flags w uac)])] modifications)
         | Some _ \<Rightarrow> Inl TypeError)
      else Inr modifications)"

text \<open>Personal and account information, up to the password fields.\<close>

definition personal_modifications :: "user_window \<Rightarrow> changes" where
  "personal_modifications w =
     (let m1 = replace_if_modified w ''givenName'' (VStr (first_name_edit w)) [];
          m2 = replace_if_modified w ''sn'' (VStr (last_name_edit w)) m1;
          m3 = replace_if_modified w ''displayName'' (VStr (display_name_edit w)) m2;
          m4 = replace_if_modified w ''mail'' (VStr (email_edit w)) m3;
          m5 = replace_if_modified w ''telephoneNumber'' (VStr (phone_edit w)) m4;
          m6 = replace_if_modified w ''mobile'' (VStr (mobile_edit w)) m5;
          m7 = replace_if_modified w ''userPrincipalName''
                 (VStr (upn_edit w @ upn_suffix_combo w)) m6
      in m7)"

definition pwd_last_set_modification :: "user_window \<Rightarrow> changes \<Rightarrow> changes" where
  "pwd_last_set_modification w modifications =
     replace_if_modified w ''pwdLastSet'' (VInt (if pwd_expired_chk w then 0 else - 1))
       modifications"

text \<open>Job and address information and the country, after the password fields.\<close>

definition country_modifications :: "user_window \<Rightarrow> changes \<Rightarrow> changes" where
  "country_modifications w modifications =
     (if ''country'' \<in> modified_attributes w then
        (case country_combo w of
           None \<Rightarrow> modifications
         | Some (country_name, country_code, country_num) \<Rightarrow>
             AList.update ''countryCode'' [(MODIFY_REPLACE, [VStr country_num])]
               (AList.update ''co'' [(MODIFY_REPLACE, [VStr country_name])]
                  (AList.update ''c'' [(MODIFY_REPLACE, [VStr country_code])] modifications)))
      else modifications)"

definition job_address_modifications :: "user_window \<Rightarrow> changes \<Rightarrow> changes" where
  "job_address_modifications w m0 =
     (let m1 = replace_if_modified w ''title'' (VStr (job_title_edit w)) m0;
          m2 = replace_if_modified w ''department'' (VStr (department_edit w)) m1;
          m3 = replace_if_modified w ''company'' (VStr (company_edit w)) m2;
          m4 = replace_if_modified w ''description'' (VStr (description_edit w)) m3;
          m5 = replace_if_modified w ''streetAddress'' (VStr (street_edit w)) m4;
          m6 = replace_if_modified w ''l'' (VStr (city_edit w)) m5;
          m7 = replace_if_modified w ''st'' (VStr (state_edit w)) m6;
          m8 = replace_if_modified w ''postalCode'' (VStr (postal_edit w)) m7
      in country_modifications w m8)"

text \<open>The attributes of the attributes tab: those handled above are skipped, the
  others are written when their value differs from the snapshot.\<close>

definition handled_elsewhere :: "string list" where
  "handled_elsewhere =
     [''givenName'', ''sn'', ''displayName'', ''mail'', ''telephoneNumber'', ''mobile'',
      ''userPrincipalName'', ''userAccountControl'', ''pwdLastSet'', ''unicodePwd'',
      ''title'', ''department'', ''company'', ''description'', ''streetAddress'',
      ''l'', ''st'', ''postalCode'', ''c'', ''co'', ''countryCode'']"

text \<open>\<open>self.user_data.get(attr_name, "")\<close>\<close>

definition original_value :: "user_window \<Rightarrow> string \<Rightarrow> pyval" where
  "original_value w attr_name =
     (case user_data w attr_name of None \<Rightarrow> VStr [] | Some x \<Rightarrow> x)"

fun custom_modifications :: "user_window \<Rightarrow> attributes \<Rightarrow> changes \<Rightarrow> changes" where
  "custom_modifications w [] modifications = modifications"
| "custom_modifications w ((attr_name, v) # rest) modifications =
     (if attr_name \<in> fst ` set modifications \<or> attr_name \<in> set handled_elsewhere
      then custom_modifications w rest modifications
      else if v \<noteq> original_value w attr_name
      then custom_modifications w rest
             (AList.update attr_name [(MODIFY_REPLACE, as_list v)] modifications)
      else custom_modifications w rest modifications)"

text \<open>The dictionary \<open>modifications\<close> that \<open>save_changes\<close> builds; \<open>Inr None\<close>
  is the return after the password-mismatch warning.\<close>

definition modifications :: "user_window \<Rightarrow> error + changes option" where
  "modifications w =
     (case uac_modification w (personal_modifications w) of
        Inl e \<Rightarrow> Inl e
      | Inr m1 \<Rightarrow>
          (let m2 = pwd_last_set_modification w m1
           in if new_password_edit w \<noteq> [] \<and> new_password_edit w = confirm_password_edit w
              then
                Inr (Some (custom_modifications w (custom_attributes w)
                       (job_address_modifications w
                          (AList.update ''unicodePwd''
                             [(MODIFY_REPLACE, [VBytes (encode_password (new_password_edit w))])]
                             m2))))
              else if new_password_edit w \<noteq> [] then Inr None
              else
                Inr (Some (custom_modifications w (custom_attributes w)
                       (job_address_modifications w m2)))))"

definition save_changes :: "user_window \<Rightarrow> error + user_window \<times> ldap_op list" where
  "save_changes w =
     (case modifications w of
        Inl e \<Rightarrow> Inl e
      | Inr None \<Rightarrow> Inr (w\<lparr>status_label := ''Password mismatch''\<rparr>, [])
      | Inr (Some m) \<Rightarrow>
          if m \<noteq> [] then
            (case ldap_conn w of
               None \<Rightarrow> Inr (w\<lparr>status_label := ''Error saving changes''\<rparr>, [])
             | Some conn \<Rightarrow>
                 (case modify conn (user_dn w) m of
                    Returns True \<Rightarrow>
                      Inr (w\<lparr>status_label := ''Changes saved successfully''\<rparr>,
                           [Modify (user_dn w) m])
                  | Returns False \<Rightarrow>
                      Inr (w\<lparr>status_label := ''Save failed''\<rparr>, [Modify (user_dn w) m])
                  | _ \<Rightarrow>
                      Inr (w\<lparr>status_label := ''Error saving changes''\<rparr>,
                           [Modify (user_dn w) m])))
          else Inr (w\<lparr>status_label := ''No changes to save''\<rparr>, []))"


section \<open>Example directories and windows\<close>

text \<open>A directory holding the given account names, in which every write succeeds;
  a directory whose every call raises; and a window with every field empty.\<close>

definition directory :: "string list \<Rightarrow> connection" where
  "directory accounts =
     \<lparr>default_naming_context = Some ''DC=corp,DC=example,DC=com'',
      search = (\<lambda>base flt. Some (filter (\<lambda>sam. sam_filter sam = flt) accounts)),
      modify = (\<lambda>dn m. Returns True),
      ssl_connection =
        Returns \<lparr>add = (\<lambda>dn a. Returns True), write_modify = (\<lambda>dn m. Returns True)\<rparr>\<rparr>"

definition unreachable_directory :: connection where
  "unreachable_directory =
     \<lparr>default_naming_context = Some ''DC=corp,DC=example,DC=com'',
      search = (\<lambda>base flt. None),
      modify = (\<lambda>dn m. Raises_LDAPException),
      ssl_connection = Raises_LDAPException\<rparr>"

definition blank_window :: user_window where
  "blank_window =
     \<lparr>ldap_conn = Some (directory []), mode = EDIT, user_dn = ''CN=Jane Doe,OU=Staff'',
      user_data = Map.empty, modified_attributes = {},
      first_name_edit = [], last_name_edit = [], display_name_edit = [],
      email_edit = [], phone_edit = [], mobile_edit = [], sam_account_edit = [],
      sam_account_has_focus = False, upn_edit = [], upn_suffix_combo = [], ou_combo = [],
      password_edit = [], new_password_edit = [], confirm_password_edit = [],
      contractor_chk = False, change_password_chk = False, never_expires_chk = True,
      disabled_chk = False, pwd_never_expires_chk = False, cannot_change_pwd_chk = False,
      pwd_expired_chk = False, job_title_edit = [], department_edit = [],
      company_edit = [], description_edit = [], street_edit = [], city_edit = [],
      state_edit = [], postal_edit = [],
      country_combo = Some (''United States'', ''US'', ''840''),
      custom_attributes = [], selected_groups = [], all_groups = [],
      manual_entry_reply = False, status_label = []\<rparr>"


text \<open>A user whose account-control value is 512, with the disable box newly
  checked; the attributes tab shows the snapshot unchanged.\<close>

definition disable_window :: user_window where
  "disable_window =
     blank_window
       \<lparr>user_data := [''userAccountControl'' \<mapsto> VInt 512, ''info'' \<mapsto> VStr ''x''],
        custom_attributes := [(''userAccountControl'', VInt 512), (''info'', VStr ''x'')],
        modified_attributes := {''userAccountControl''},
        disabled_chk := True\<rparr>"


text \<open>The attributes tab was edited and nothing else.\<close>

definition attributes_tab_window :: user_window where
  "attributes_tab_window = blank_window\<lparr>custom_attributes := [(''info'', VStr ''x'')]\<rparr>"

text \<open>Every ordinary field changed, the country changed, and a new password given
  twice; the first name typed is the one of the snapshot.\<close>

definition busy_window :: user_window where
  "busy_window =
     blank_window
       \<lparr>user_data := [''givenName'' \<mapsto> VStr ''Jane'', ''userAccountControl'' \<mapsto> VInt 512],
        modified_attributes := {''givenName'', ''userPrincipalName'', ''pwdLastSet'', ''country''},
        first_name_edit := ''Jane'', upn_edit := ''jane.doe'', upn_suffix_combo := ''@corp.example'',
        country_combo := Some (''Canada'', ''CA'', ''124''),
        new_password_edit := ''Ab1'', confirm_password_edit := ''Ab1'',
        custom_attributes := [(''givenName'', VStr ''Jane''), (''info'', VStr ''x'')]\<rparr>"

text \<open>A changed first name and country, with a new password whose confirmation
  differs.\<close>

definition mismatch_window :: user_window where
  "mismatch_window =
     blank_window
       \<lparr>modified_attributes := {''givenName'', ''country''}, first_name_edit := ''Jane'',
        new_password_edit := ''a'', confirm_password_edit := ''b''\<rparr>"

text \<open>The country marked as modified while the country box has no current item.\<close>

definition no_country_window :: user_window where
  "no_country_window =
     blank_window\<lparr>modified_attributes := {''country''}, country_combo := None\<rparr>"

text \<open>The country changed and nothing else.\<close>

definition country_window :: user_window where
  "country_window = blank_window\<lparr>modified_attributes := {''country''}\<rparr>"

text \<open>A new password given twice and no field touched.\<close>

definition reset_window :: user_window where
  "reset_window = blank_window\<lparr>new_password_edit := ''Ab1'', confirm_password_edit := ''Ab1''\<rparr>"


text \<open>The create form filled in for the contractor Jane Doe, on a directory that
  already holds the account \<open>j.doe-c\<close>.\<close>

definition contractor_window :: user_window where
  "contractor_window =
     blank_window
       \<lparr>ldap_conn := Some (directory [''j.doe-c'']), mode := CREATE,
        first_name_edit := ''Jane'', last_name_edit := ''Doe'', contractor_chk := True,
        password_edit := ''Ab1'', confirm_password_edit := ''Ab1'',
        ou_combo := ''OU=Staff,DC=corp,DC=example,DC=com''\<rparr>"


section \<open>Properties of save_changes\<close>

lemma custom_modifications_unchanged:
  "(\<forall>(a, v) \<in> set cs. user_data w a = Some v) \<Longrightarrow> custom_modifications w cs m = m"
  by (induction cs arbitrary: m) (auto simp add: original_value_def)

lemma map_of_replace_if_modified:
  "map_of (replace_if_modified w a v m) k =
     (if a \<in> modified_attributes w \<and> k = a then Some [(MODIFY_REPLACE, [v])] else map_of m k)"
  by (simp add: replace_if_modified_def update_conv')

lemma keys_replace_if_modified:
  "k \<in> fst ` set (replace_if_modified w a v m) \<longleftrightarrow>
     k \<in> fst ` set m \<or> (k = a \<and> a \<in> modified_attributes w)"
  by (auto simp add: replace_if_modified_def dom_update)

lemma distinct_replace_if_modified:
  "distinct (map fst m) \<Longrightarrow> distinct (map fst (replace_if_modified w a v m))"
  by (simp add: replace_if_modified_def distinct_update)

lemma distinct_personal: "distinct (map fst (personal_modifications w))"
  by (simp add: personal_modifications_def Let_def distinct_replace_if_modified)

lemma uac_modification_Inr:
  "uac_is_int w \<Longrightarrow>
   uac_modification w m =
     Inr (if ''userAccountControl'' \<in> modified_attributes w
          then AList.update ''userAccountControl''
                 [(MODIFY_REPLACE, [VInt (uac_flags w (snapshot_uac w))])] m
          else m)"
  by (auto simp add: uac_modification_def uac_is_int_def snapshot_uac_def
      split: option.splits pyval.splits)

lemma distinct_country:
  "distinct (map fst m) \<Longrightarrow> distinct (map fst (country_modifications w m))"
  by (auto simp add: country_modifications_def distinct_update split: option.splits)

lemma map_of_country:
  "map_of (country_modifications w m) k =
     (if ''country'' \<in> modified_attributes w then
        (case country_combo w of
           None \<Rightarrow> map_of m k
         | Some (country_name, country_code, country_num) \<Rightarrow>
             if k = ''countryCode'' then Some [(MODIFY_REPLACE, [VStr country_num])]
             else if k = ''co'' then Some [(MODIFY_REPLACE, [VStr country_name])]
             else if k = ''c'' then Some [(MODIFY_REPLACE, [VStr country_code])]
             else map_of m k)
      else map_of m k)"
  by (auto simp add: country_modifications_def update_conv' split: option.splits)

lemma distinct_job_address:
  "distinct (map fst m) \<Longrightarrow> distinct (map fst (job_address_modifications w m))"
  by (simp add: job_address_modifications_def Let_def distinct_replace_if_modified distinct_country)

lemma distinct_custom:
  "distinct (map fst m) \<Longrightarrow> distinct (map fst (custom_modifications w cs m))"
  by (induction cs arbitrary: m) (auto simp add: distinct_update)

text \<open>The dictionary before the attributes tab is read.\<close>

lemma modifications_Some:
  assumes "uac_is_int w"
    and "new_password_edit w = [] \<or> new_password_edit w = confirm_password_edit w"
  shows "modifications w =
     Inr (Some (custom_modifications w (custom_attributes w)
       (job_address_modifications w
          ((if new_password_edit w \<noteq> []
            then AList.update ''unicodePwd''
                   [(MODIFY_REPLACE, [VBytes (encode_password (new_password_edit w))])]
            else id)
             (pwd_last_set_modification w
                (if ''userAccountControl'' \<in> modified_attributes w
                 then AList.update ''userAccountControl''
                     [(MODIFY_REPLACE, [VInt (uac_flags w (snapshot_uac w))])]
                     (personal_modifications w)
                 else personal_modifications w))))))"
  using assms(2) by (auto simp add: modifications_def uac_modification_Inr [OF assms(1)] Let_def)

lemma modifications_mismatch:
  assumes "uac_is_int w"
    and "new_password_edit w \<noteq> []" and "new_password_edit w \<noteq> confirm_password_edit w"
  shows "modifications w = Inr None"
  using assms(2,3) by (simp add: modifications_def uac_modification_Inr [OF assms(1)] Let_def)

lemma map_of_custom_handled:
  "k \<in> set handled_elsewhere \<Longrightarrow> map_of (custom_modifications w cs m) k = map_of m k"
  by (induction cs arbitrary: m) (auto simp add: update_conv')

lemma keys_custom:
  "fst ` set (custom_modifications w cs m) =
     fst ` set m \<union> {a. a \<notin> set handled_elsewhere \<and> (\<exists>v. (a, v) \<in> set cs \<and> v \<noteq> original_value w a)}"
proof (induction cs arbitrary: m)
  case Nil
  then show ?case by simp
next
  case (Cons p cs)
  obtain a v where p: "p = (a, v)" by (cases p)
  show ?case unfolding p
    by (auto simp add: Cons.IH dom_update)
qed

lemma filter_key_distinct:
  "distinct (map fst m) \<Longrightarrow> map_of m k = Some v \<Longrightarrow> filter (\<lambda>p. fst p = k) m = [(k, v)]"
proof (induction m)
  case Nil then show ?case by simp
next
  case (Cons p m)
  show ?case
  proof (cases "fst p = k")
    case True
    with Cons.prems have "p = (k, v)" by (cases p) auto
    moreover have "filter (\<lambda>p. fst p = k) m = []"
      using Cons.prems(1) True by (auto simp add: filter_empty_conv image_iff)
    ultimately show ?thesis by simp
  next
    case False
    with Cons show ?thesis by auto
  qed
qed

lemma distinct_modifications:
  assumes "modifications w = Inr (Some m)" shows "distinct (map fst m)"
proof -
  obtain m1 where m1: "uac_modification w (personal_modifications w) = Inr m1"
    using assms by (auto simp add: modifications_def split: sum.splits)
  have d1: "distinct (map fst m1)"
    using m1 distinct_personal [of w]
    by (auto simp add: uac_modification_def distinct_update split: if_splits option.splits pyval.splits)
  show ?thesis
    using assms d1
    by (auto simp add: modifications_def m1 Let_def pwd_last_set_modification_def distinct_custom
        distinct_job_address distinct_replace_if_modified distinct_update split: if_splits)
qed

lemma keys_country:
  "k \<in> fst ` set (country_modifications w m) \<longleftrightarrow>
     k \<in> fst ` set m \<or>
     (''country'' \<in> modified_attributes w \<and> country_combo w \<noteq> None \<and>
      (k = ''c'' \<or> k = ''co'' \<or> k = ''countryCode''))"
  by (auto simp add: country_modifications_def dom_update split: option.splits)

lemma keys_personal:
  "k \<in> fst ` set (personal_modifications w) \<longleftrightarrow>
     k \<in> modified_attributes w \<and>
     (k = ''givenName'' \<or> k = ''sn'' \<or> k = ''displayName'' \<or> k = ''mail'' \<or>
      k = ''telephoneNumber'' \<or> k = ''mobile'' \<or> k = ''userPrincipalName'')"
  unfolding personal_modifications_def Let_def keys_replace_if_modified
  by auto

lemma keys_job_address:
  "k \<in> fst ` set (job_address_modifications w m) \<longleftrightarrow>
     k \<in> fst ` set m \<or>
     (k \<in> modified_attributes w \<and>
      (k = ''title'' \<or> k = ''department'' \<or> k = ''company'' \<or> k = ''description'' \<or>
       k = ''streetAddress'' \<or> k = ''l'' \<or> k = ''st'' \<or> k = ''postalCode'')) \<or>
     (''country'' \<in> modified_attributes w \<and> country_combo w \<noteq> None \<and>
      (k = ''c'' \<or> k = ''co'' \<or> k = ''countryCode''))"
  unfolding job_address_modifications_def Let_def keys_country keys_replace_if_modified
  by auto

lemma keys_before_custom:
  "k \<in> fst ` set (job_address_modifications w
          ((if new_password_edit w \<noteq> []
            then AList.update ''unicodePwd''
                   [(MODIFY_REPLACE, [VBytes (encode_password (new_password_edit w))])]
            else id)
             (pwd_last_set_modification w
                (if ''userAccountControl'' \<in> modified_attributes w
                 then AList.update ''userAccountControl''
                     [(MODIFY_REPLACE, [VInt (uac_flags w (snapshot_uac w))])]
                     (personal_modifications w)
                 else personal_modifications w)))) \<longleftrightarrow>
     (k \<in> modified_attributes w \<and>
      (k = ''givenName'' \<or> k = ''sn'' \<or> k = ''displayName'' \<or> k = ''mail'' \<or>
       k = ''telephoneNumber'' \<or> k = ''mobile'' \<or> k = ''userPrincipalName'' \<or>
       k = ''userAccountControl'' \<or> k = ''pwdLastSet'' \<or>
       k = ''title'' \<or> k = ''department'' \<or> k = ''company'' \<or> k = ''description'' \<or>
       k = ''streetAddress'' \<or> k = ''l'' \<or> k = ''st'' \<or> k = ''postalCode'')) \<or>
     (''country'' \<in> modified_attributes w \<and> country_combo w \<noteq> None \<and>
      (k = ''c'' \<or> k = ''co'' \<or> k = ''countryCode'')) \<or>
     (new_password_edit w \<noteq> [] \<and> k = ''unicodePwd'')"
  unfolding keys_job_address pwd_last_set_modification_def
  by (auto simp add: keys_replace_if_modified keys_personal dom_update)

lemma bound_attributes_iff:
  "k \<in> set handled_elsewhere - {''unicodePwd'', ''c'', ''co'', ''countryCode''} \<longleftrightarrow>
      (k = ''givenName'' \<or> k = ''sn'' \<or> k = ''displayName'' \<or> k = ''mail'' \<or>
       k = ''telephoneNumber'' \<or> k = ''mobile'' \<or> k = ''userPrincipalName'' \<or>
       k = ''userAccountControl'' \<or> k = ''pwdLastSet'' \<or>
       k = ''title'' \<or> k = ''department'' \<or> k = ''company'' \<or> k = ''description'' \<or>
       k = ''streetAddress'' \<or> k = ''l'' \<or> k = ''st'' \<or> k = ''postalCode'')"
  by (auto simp add: handled_elsewhere_def)


lemma mem_if: "k \<in> (if c then S else {}) \<longleftrightarrow> c \<and> k \<in> S"
  by simp


lemma map_of_replace_same:
  "a \<in> modified_attributes w \<Longrightarrow> map_of (replace_if_modified w a v m) a = Some [(MODIFY_REPLACE, [v])]"
  by (simp add: map_of_replace_if_modified)

lemma map_of_replace_other:
  "k \<noteq> a \<Longrightarrow> map_of (replace_if_modified w a v m) k = map_of m k"
  by (simp add: map_of_replace_if_modified)

lemma map_of_update_same: "map_of (AList.update a v m) a = Some v"
  by (simp add: update_conv')

lemma map_of_update_other: "k \<noteq> a \<Longrightarrow> map_of (AList.update a v m) k = map_of m k"
  by (simp add: update_conv')

lemma map_of_country_other:
  "k \<noteq> ''c'' \<Longrightarrow> k \<noteq> ''co'' \<Longrightarrow> k \<noteq> ''countryCode'' \<Longrightarrow>
   map_of (country_modifications w m) k = map_of m k"
  by (simp add: map_of_country split: option.splits)

lemmas lookup_simps =
  personal_modifications_def job_address_modifications_def pwd_last_set_modification_def
  Let_def map_of_replace_same map_of_replace_other map_of_update_same map_of_update_other
  map_of_country_other

lemma modifications_lookup:
  assumes "uac_is_int w"
    and "new_password_edit w = [] \<or> new_password_edit w = confirm_password_edit w"
    and "k \<in> set handled_elsewhere"
    and "map_of (job_address_modifications w
          ((if new_password_edit w \<noteq> []
            then AList.update ''unicodePwd''
                   [(MODIFY_REPLACE, [VBytes (encode_password (new_password_edit w))])]
            else id)
             (pwd_last_set_modification w
                (if ''userAccountControl'' \<in> modified_attributes w
                 then AList.update ''userAccountControl''
                     [(MODIFY_REPLACE, [VInt (uac_flags w (snapshot_uac w))])]
                     (personal_modifications w)
                 else personal_modifications w)))) k = Some v"
    and "modifications w = Inr (Some m)"
  shows "filter (\<lambda>p. fst p = k) m = [(k, v)]"
proof -
  have "map_of m k = Some v"
    using assms(4,5) map_of_custom_handled [OF assms(3)]
    unfolding modifications_Some [OF assms(1,2)] by auto
  with distinct_modifications [OF assms(5)] show ?thesis
    by (rule filter_key_distinct)
qed



text \<open>
  C5. With 512 in the snapshot, the disable box checked, the two other boxes unchecked,
  \<open>userAccountControl\<close> the only modified attribute, no new password and the
  attributes tab unchanged from the snapshot, the dictionary built holds one entry,
  the replacement of \<open>userAccountControl\<close> by 514, and that is the one modify
  sent to the directory.
\<close>

theorem save_changes_disable_512:
  assumes "user_data w ''userAccountControl'' = Some (VInt 512)"
    and "disabled_chk w" and "\<not> pwd_never_expires_chk w" and "\<not> cannot_change_pwd_chk w"
    and "modified_attributes w = {''userAccountControl''}"
    and "new_password_edit w = []"
    and "\<forall>(a, v) \<in> set (custom_attributes w). user_data w a = Some v"
    and "ldap_conn w = Some conn"
  shows "modifications w =
           Inr (Some [(''userAccountControl'', [(MODIFY_REPLACE, [VInt 514])])]) \<and>
         (\<exists>w'. save_changes w =
            Inr (w', [Modify (user_dn w)
                        [(''userAccountControl'', [(MODIFY_REPLACE, [VInt 514])])]]))"
proof -
  have m: "modifications w =
      Inr (Some [(''userAccountControl'', [(MODIFY_REPLACE, [VInt 514])])])"
    using assms(1-6) custom_modifications_unchanged [OF assms(7)]
    by (simp add: modifications_def uac_modification_def personal_modifications_def
        replace_if_modified_def pwd_last_set_modification_def job_address_modifications_def
        country_modifications_def uac_flags_def Let_def)
  have "\<exists>w'. save_changes w =
      Inr (w', [Modify (user_dn w)
                  [(''userAccountControl'', [(MODIFY_REPLACE, [VInt 514])])]])"
    using m assms(8)
    by (cases "modify conn (user_dn w)
                 [(''userAccountControl'', [(MODIFY_REPLACE, [VInt 514])])]"
          rule: outcome.exhaust)
       (auto simp add: save_changes_def split: bool.splits)
  with m show ?thesis by simp
qed

theorem save_changes_disable_512_witness:
  "modifications disable_window =
     Inr (Some [(''userAccountControl'', [(MODIFY_REPLACE, [VInt 514])])]) \<and>
   (\<exists>w'. save_changes disable_window =
      Inr (w', [Modify ''CN=Jane Doe,OU=Staff''
                  [(''userAccountControl'', [(MODIFY_REPLACE, [VInt 514])])]]))"
  using save_changes_disable_512 [of disable_window "directory []"]
  by (simp add: disable_window_def blank_window_def)


text \<open>
  C2, as the code has it. When \<open>save_changes\<close> builds its dictionary (the snapshot's
  account-control value is an integer and no mismatching password was typed), the
  attribute names in it are exactly: the modified attributes among the seventeen that
  \<open>save_changes\<close> writes directly; \<open>c\<close>, \<open>co\<close> and \<open>countryCode\<close> when
  \<open>country\<close> is modified and a country is selected; \<open>unicodePwd\<close> when a new
  password was typed; and every attribute of the attributes tab that is not handled
  elsewhere and whose value differs from the snapshot.
\<close>

theorem change_set_attribute_names:
  assumes "uac_is_int w"
    and "new_password_edit w = [] \<or> new_password_edit w = confirm_password_edit w"
  shows "\<exists>m. modifications w = Inr (Some m) \<and>
     fst ` set m =
       (modified_attributes w \<inter>
          (set handled_elsewhere - {''unicodePwd'', ''c'', ''co'', ''countryCode''})) \<union>
       (if ''country'' \<in> modified_attributes w \<and> country_combo w \<noteq> None
        then {''c'', ''co'', ''countryCode''} else {}) \<union>
       (if new_password_edit w \<noteq> [] then {''unicodePwd''} else {}) \<union>
       {a. a \<notin> set handled_elsewhere \<and>
           (\<exists>v. (a, v) \<in> set (custom_attributes w) \<and> v \<noteq> original_value w a)}"
proof -
  let ?base = "job_address_modifications w
          ((if new_password_edit w \<noteq> []
            then AList.update ''unicodePwd''
                   [(MODIFY_REPLACE, [VBytes (encode_password (new_password_edit w))])]
            else id)
             (pwd_last_set_modification w
                (if ''userAccountControl'' \<in> modified_attributes w
                 then AList.update ''userAccountControl''
                     [(MODIFY_REPLACE, [VInt (uac_flags w (snapshot_uac w))])]
                     (personal_modifications w)
                 else personal_modifications w)))"
  have "fst ` set ?base = (modified_attributes w \<inter>
          (set handled_elsewhere - {''unicodePwd'', ''c'', ''co'', ''countryCode''})) \<union>
       (if ''country'' \<in> modified_attributes w \<and> country_combo w \<noteq> None
        then {''c'', ''co'', ''countryCode''} else {}) \<union>
       (if new_password_edit w \<noteq> [] then {''unicodePwd''} else {})"
  proof (rule set_eqI)
    fix k
    show "k \<in> fst ` set ?base \<longleftrightarrow> k \<in> (modified_attributes w \<inter>
          (set handled_elsewhere - {''unicodePwd'', ''c'', ''co'', ''countryCode''})) \<union>
       (if ''country'' \<in> modified_attributes w \<and> country_combo w \<noteq> None
        then {''c'', ''co'', ''countryCode''} else {}) \<union>
       (if new_password_edit w \<noteq> [] then {''unicodePwd''} else {})"
      unfolding keys_before_custom Un_iff Int_iff bound_attributes_iff mem_if insert_iff empty_iff
      by (simp only: simp_thms conj_assoc disj_assoc)
  qed
  then show ?thesis
    unfolding modifications_Some [OF assms] by (simp add: keys_custom)
qed

theorem change_set_attribute_names_witness:
  "\<exists>m. modifications busy_window = Inr (Some m) \<and>
     fst ` set m =
       {''givenName'', ''userPrincipalName'', ''pwdLastSet'', ''c'', ''co'', ''countryCode'',
        ''unicodePwd'', ''info''}"
proof -
  have u: "uac_is_int busy_window"
    by (simp add: uac_is_int_def busy_window_def blank_window_def)
  have p: "new_password_edit busy_window = [] \<or>
           new_password_edit busy_window = confirm_password_edit busy_window"
    by (simp add: busy_window_def blank_window_def)
  have c: "{a. a \<notin> set handled_elsewhere \<and>
             (\<exists>v. (a, v) \<in> set (custom_attributes busy_window) \<and>
                  v \<noteq> original_value busy_window a)} = {''info''}"
    by (auto simp add: busy_window_def blank_window_def handled_elsewhere_def
        original_value_def)
  have d: "modified_attributes busy_window \<inter>
             (set handled_elsewhere - {''unicodePwd'', ''c'', ''co'', ''countryCode''}) =
           {''givenName'', ''userPrincipalName'', ''pwdLastSet''}"
    by (auto simp add: busy_window_def blank_window_def handled_elsewhere_def)
  from change_set_attribute_names [OF u p] obtain m where
    m: "modifications busy_window = Inr (Some m)" and
    k: "fst ` set m =
       (modified_attributes busy_window \<inter>
          (set handled_elsewhere - {''unicodePwd'', ''c'', ''co'', ''countryCode''})) \<union>
       (if ''country'' \<in> modified_attributes busy_window \<and> country_combo busy_window \<noteq> None
        then {''c'', ''co'', ''countryCode''} else {}) \<union>
       (if new_password_edit busy_window \<noteq> [] then {''unicodePwd''} else {}) \<union>
       {a. a \<notin> set handled_elsewhere \<and>
           (\<exists>v. (a, v) \<in> set (custom_attributes busy_window) \<and>
                v \<noteq> original_value busy_window a)}"
    by blast
  have "fst ` set m =
       {''givenName'', ''userPrincipalName'', ''pwdLastSet'', ''c'', ''co'', ''countryCode'',
        ''unicodePwd'', ''info''}"
    unfolding k c d by (auto simp add: busy_window_def blank_window_def)
  with m show ?thesis by blast
qed

text \<open>
  C2 as stated fails: an attribute edited in the attributes tab is written although
  no attribute is marked as modified.
\<close>

theorem change_set_attribute_names_counterexample:
  "modified_attributes attributes_tab_window = {} \<and>
   new_password_edit attributes_tab_window = [] \<and>
   modifications attributes_tab_window =
     Inr (Some [(''info'', [(MODIFY_REPLACE, [VStr ''x''])])])"
  by (simp add: attributes_tab_window_def blank_window_def modifications_def
      uac_modification_def personal_modifications_def replace_if_modified_def
      pwd_last_set_modification_def job_address_modifications_def country_modifications_def
      handled_elsewhere_def original_value_def as_list_def Let_def)

text \<open>
  C3, as the code has it. When \<open>save_changes\<close> builds its dictionary, every modified
  attribute bound to a text field has exactly one entry there, the replacement by the
  text of the field (for \<open>userPrincipalName\<close>: the prefix followed by the suffix),
  whatever the snapshot holds; a modified \<open>userAccountControl\<close> has exactly one
  entry, the bitmask; a modified \<open>pwdLastSet\<close> has exactly one entry, 0 or -1.
\<close>

theorem dirty_attribute_replaced:
  assumes "uac_is_int w"
    and "new_password_edit w = [] \<or> new_password_edit w = confirm_password_edit w"
  shows "\<exists>m. modifications w = Inr (Some m) \<and>
     (\<forall>(field, attr) \<in> set field_to_attr.
        attr \<in> modified_attributes w \<longrightarrow>
        filter (\<lambda>p. fst p = attr) m =
          [(attr, [(MODIFY_REPLACE,
                    [VStr (if attr = ''userPrincipalName''
                           then upn_edit w @ upn_suffix_combo w else field w)])])]) \<and>
     (''userAccountControl'' \<in> modified_attributes w \<longrightarrow>
        filter (\<lambda>p. fst p = ''userAccountControl'') m =
          [(''userAccountControl'',
            [(MODIFY_REPLACE, [VInt (uac_flags w (snapshot_uac w))])])]) \<and>
     (''pwdLastSet'' \<in> modified_attributes w \<longrightarrow>
        filter (\<lambda>p. fst p = ''pwdLastSet'') m =
          [(''pwdLastSet'', [(MODIFY_REPLACE, [VInt (if pwd_expired_chk w then 0 else - 1)])])])"
proof -
  obtain m where m: "modifications w = Inr (Some m)"
    using modifications_Some [OF assms] by blast
  note r = modifications_lookup [OF assms _ _ m]
  have fields: "\<forall>(field, attr) \<in> set field_to_attr.
        attr \<in> modified_attributes w \<longrightarrow>
        filter (\<lambda>p. fst p = attr) m =
          [(attr, [(MODIFY_REPLACE,
                    [VStr (if attr = ''userPrincipalName''
                           then upn_edit w @ upn_suffix_combo w else field w)])])]"
    unfolding field_to_attr_def
    by (simp, intro conjI impI; (rule r, simp_all add: handled_elsewhere_def lookup_simps))
  have uac: "''userAccountControl'' \<in> modified_attributes w \<Longrightarrow>
        filter (\<lambda>p. fst p = ''userAccountControl'') m =
          [(''userAccountControl'',
            [(MODIFY_REPLACE, [VInt (uac_flags w (snapshot_uac w))])])]"
    by (rule r) (simp_all add: handled_elsewhere_def lookup_simps)
  have pls: "''pwdLastSet'' \<in> modified_attributes w \<Longrightarrow>
        filter (\<lambda>p. fst p = ''pwdLastSet'') m =
          [(''pwdLastSet'', [(MODIFY_REPLACE, [VInt (if pwd_expired_chk w then 0 else - 1)])])]"
    by (rule r) (simp_all add: handled_elsewhere_def lookup_simps)
  from m fields uac pls show ?thesis by blast
qed


theorem dirty_attribute_replaced_witness:
  "user_data busy_window ''givenName'' = Some (VStr (first_name_edit busy_window)) \<and>
   (\<exists>m. modifications busy_window = Inr (Some m) \<and>
      filter (\<lambda>p. fst p = ''givenName'') m =
        [(''givenName'', [(MODIFY_REPLACE, [VStr ''Jane''])])] \<and>
      filter (\<lambda>p. fst p = ''userPrincipalName'') m =
        [(''userPrincipalName'', [(MODIFY_REPLACE, [VStr ''jane.doe@corp.example''])])] \<and>
      filter (\<lambda>p. fst p = ''pwdLastSet'') m =
        [(''pwdLastSet'', [(MODIFY_REPLACE, [VInt (- 1)])])])"
proof -
  have u: "uac_is_int busy_window"
    by (simp add: uac_is_int_def busy_window_def blank_window_def)
  have p: "new_password_edit busy_window = [] \<or>
           new_password_edit busy_window = confirm_password_edit busy_window"
    by (simp add: busy_window_def blank_window_def)
  show ?thesis
    using dirty_attribute_replaced [OF u p]
    by (auto simp add: field_to_attr_def busy_window_def blank_window_def)
qed

text \<open>
  C3 as stated fails: with a mismatching new password no request is produced for
  the modified first name, and a modified \<open>country\<close> gives three requests, none
  of them for the name \<open>country\<close>.
\<close>

theorem dirty_attribute_replaced_counterexample:
  "''givenName'' \<in> modified_attributes mismatch_window \<and>
   modifications mismatch_window = Inr None \<and>
   save_changes mismatch_window =
     Inr (mismatch_window\<lparr>status_label := ''Password mismatch''\<rparr>, []) \<and>
   ''country'' \<in> modified_attributes country_window \<and>
   modifications country_window =
     Inr (Some [(''c'', [(MODIFY_REPLACE, [VStr ''US''])]),
                (''co'', [(MODIFY_REPLACE, [VStr ''United States''])]),
                (''countryCode'', [(MODIFY_REPLACE, [VStr ''840''])])])"
  by (simp add: mismatch_window_def country_window_def blank_window_def save_changes_def
      modifications_def uac_modification_def personal_modifications_def
      replace_if_modified_def pwd_last_set_modification_def job_address_modifications_def
      country_modifications_def Let_def)

text \<open>
  C4. With a new password typed and an integer account-control value in the snapshot:
  if the confirmation differs, no dictionary is built, nothing is sent to the
  directory and the status is the password mismatch, not the absence of changes; if it
  is the same, the dictionary holds exactly one entry for \<open>unicodePwd\<close>, the
  replacement by the UTF-16LE bytes of the password between double quotes, whatever
  is marked as modified.
\<close>

theorem password_reset_or_mismatch:
  assumes "uac_is_int w" and "new_password_edit w \<noteq> []"
  shows "(new_password_edit w \<noteq> confirm_password_edit w \<longrightarrow>
            modifications w = Inr None \<and>
            save_changes w = Inr (w\<lparr>status_label := ''Password mismatch''\<rparr>, []) \<and>
            save_changes w \<noteq> Inr (w\<lparr>status_label := ''No changes to save''\<rparr>, [])) \<and>
         (new_password_edit w = confirm_password_edit w \<longrightarrow>
            (\<exists>m. modifications w = Inr (Some m) \<and>
                 filter (\<lambda>p. fst p = ''unicodePwd'') m =
                   [(''unicodePwd'',
                     [(MODIFY_REPLACE,
                       [VBytes (encode_utf_16_le (''\"'' @ new_password_edit w @ ''\"''))])])]))"
proof (intro conjI impI)
  assume ne: "new_password_edit w \<noteq> confirm_password_edit w"
  show mm: "modifications w = Inr None"
    using assms ne by (rule modifications_mismatch)
  then show s: "save_changes w = Inr (w\<lparr>status_label := ''Password mismatch''\<rparr>, [])"
    by (simp add: save_changes_def)
  have "status_label (w\<lparr>status_label := ''Password mismatch''\<rparr>) \<noteq>
        status_label (w\<lparr>status_label := ''No changes to save''\<rparr>)" by simp
  then have "w\<lparr>status_label := ''Password mismatch''\<rparr> \<noteq> w\<lparr>status_label := ''No changes to save''\<rparr>"
    by metis
  then show "save_changes w \<noteq> Inr (w\<lparr>status_label := ''No changes to save''\<rparr>, [])"
    unfolding s by simp
next
  assume eq: "new_password_edit w = confirm_password_edit w"
  then have nm: "new_password_edit w = [] \<or> new_password_edit w = confirm_password_edit w" by simp
  obtain m where m: "modifications w = Inr (Some m)"
    using modifications_Some [OF assms(1) nm] by blast
  have "filter (\<lambda>p. fst p = ''unicodePwd'') m =
          [(''unicodePwd'',
             [(MODIFY_REPLACE, [VBytes (encode_utf_16_le (''\"'' @ new_password_edit w @ ''\"''))])])]"
    using assms(2)
    by (intro modifications_lookup [OF assms(1) nm _ _ m])
       (simp_all add: handled_elsewhere_def lookup_simps encode_password_def)
  with m show "\<exists>m. modifications w = Inr (Some m) \<and>
                 filter (\<lambda>p. fst p = ''unicodePwd'') m =
                   [(''unicodePwd'',
                     [(MODIFY_REPLACE,
                       [VBytes (encode_utf_16_le (''\"'' @ new_password_edit w @ ''\"''))])])]"
    by blast
qed


theorem password_reset_or_mismatch_witness:
  "modified_attributes reset_window = {} \<and>
   (\<exists>m. modifications reset_window = Inr (Some m) \<and>
      filter (\<lambda>p. fst p = ''unicodePwd'') m =
        [(''unicodePwd'',
          [(MODIFY_REPLACE, [VBytes [34, 0, 65, 0, 98, 0, 49, 0, 34, 0]])])]) \<and>
   modifications mismatch_window = Inr None \<and>
   save_changes mismatch_window =
     Inr (mismatch_window\<lparr>status_label := ''Password mismatch''\<rparr>, [])"
proof -
  have u: "uac_is_int reset_window" "uac_is_int mismatch_window"
    by (simp_all add: uac_is_int_def reset_window_def mismatch_window_def blank_window_def)
  have p: "new_password_edit reset_window \<noteq> []" "new_password_edit mismatch_window \<noteq> []"
    by (simp_all add: reset_window_def mismatch_window_def blank_window_def)
  show ?thesis
    using password_reset_or_mismatch [OF u(1) p(1)] password_reset_or_mismatch [OF u(2) p(2)]
    by (simp add: reset_window_def mismatch_window_def blank_window_def encode_utf_16_le_def)
qed

text \<open>
  C9, as the code has it. When \<open>save_changes\<close> builds its dictionary, \<open>country\<close> is
  modified and the country box has a current item, the dictionary holds exactly one
  entry for each of \<open>c\<close>, \<open>co\<close> and \<open>countryCode\<close>: the two-letter code, the
  display name and the numeric code of that item.
\<close>

theorem country_expands_to_three:
  assumes "uac_is_int w"
    and "new_password_edit w = [] \<or> new_password_edit w = confirm_password_edit w"
    and "''country'' \<in> modified_attributes w"
    and "country_combo w = Some (country_name, country_code, country_num)"
  shows "\<exists>m. modifications w = Inr (Some m) \<and>
     filter (\<lambda>p. fst p = ''c'') m = [(''c'', [(MODIFY_REPLACE, [VStr country_code])])] \<and>
     filter (\<lambda>p. fst p = ''co'') m = [(''co'', [(MODIFY_REPLACE, [VStr country_name])])] \<and>
     filter (\<lambda>p. fst p = ''countryCode'') m =
       [(''countryCode'', [(MODIFY_REPLACE, [VStr country_num])])]"
proof -
  obtain m where m: "modifications w = Inr (Some m)"
    using modifications_Some [OF assms(1,2)] by blast
  note r = modifications_lookup [OF assms(1,2) _ _ m]
  have "filter (\<lambda>p. fst p = ''c'') m = [(''c'', [(MODIFY_REPLACE, [VStr country_code])])]"
    using assms(3,4)
    by (intro r) (simp_all add: handled_elsewhere_def job_address_modifications_def Let_def map_of_country)
  moreover have "filter (\<lambda>p. fst p = ''co'') m = [(''co'', [(MODIFY_REPLACE, [VStr country_name])])]"
    using assms(3,4)
    by (intro r) (simp_all add: handled_elsewhere_def job_address_modifications_def Let_def map_of_country)
  moreover have "filter (\<lambda>p. fst p = ''countryCode'') m =
       [(''countryCode'', [(MODIFY_REPLACE, [VStr country_num])])]"
    using assms(3,4)
    by (intro r) (simp_all add: handled_elsewhere_def job_address_modifications_def Let_def map_of_country)
  ultimately show ?thesis using m by blast
qed

theorem country_expands_to_three_witness:
  "\<exists>m. modifications busy_window = Inr (Some m) \<and>
     filter (\<lambda>p. fst p = ''c'') m = [(''c'', [(MODIFY_REPLACE, [VStr ''CA''])])] \<and>
     filter (\<lambda>p. fst p = ''co'') m = [(''co'', [(MODIFY_REPLACE, [VStr ''Canada''])])] \<and>
     filter (\<lambda>p. fst p = ''countryCode'') m =
       [(''countryCode'', [(MODIFY_REPLACE, [VStr ''124''])])]"
proof -
  have u: "uac_is_int busy_window"
    by (simp add: uac_is_int_def busy_window_def blank_window_def)
  have p: "new_password_edit busy_window = [] \<or>
           new_password_edit busy_window = confirm_password_edit busy_window"
    by (simp add: busy_window_def blank_window_def)
  have c: "''country'' \<in> modified_attributes busy_window"
    by (simp add: busy_window_def blank_window_def)
  have s: "country_combo busy_window = Some (''Canada'', ''CA'', ''124'')"
    by (simp add: busy_window_def blank_window_def)
  show ?thesis
    using country_expands_to_three [OF u p c s] by simp
qed

text \<open>
  C9 as stated fails: a modified country gives no request when the new password and
  its confirmation differ, and none when the country box has no current item.
\<close>

theorem country_expands_to_three_counterexample:
  "''country'' \<in> modified_attributes mismatch_window \<and>
   modifications mismatch_window = Inr None \<and>
   ''country'' \<in> modified_attributes no_country_window \<and>
   modifications no_country_window = Inr (Some [])"
  by (simp add: mismatch_window_def no_country_window_def blank_window_def modifications_def
      uac_modification_def personal_modifications_def replace_if_modified_def
      pwd_last_set_modification_def job_address_modifications_def country_modifications_def
      Let_def)

section \<open>Properties of the existence checks\<close>

text \<open>
  C6. When the search raises, \<open>check_sam_account_exists\<close> of src/helpers.py
  answers that the name does not exist, and the generator of that file returns
  \<open>jane.doe\<close> for Jane Doe although no search succeeded;
  \<open>is_sam_account_unique\<close> of src/UserEditor/helpers.py answers that the name is
  not unique, and the generator of that file returns no name.
\<close>

theorem search_failure_proposes_unverified_name:
  "check_sam_account_exists ''jane.doe'' (Some unreachable_directory) = False \<and>
   root_auto_generate_sam_account ''Jane'' ''Doe'' (Some unreachable_directory)
     = Some ''jane.doe'' \<and>
   is_sam_account_unique (Some unreachable_directory) ''j.doe'' = False \<and>
   auto_generate_sam_account ''Jane'' ''Doe'' (Some unreachable_directory) 5 = Inr None"
  by code_simp


section \<open>Properties of the name generators\<close>

lemma is_sam_account_unique_nonempty:
  "is_sam_account_unique conn c \<Longrightarrow> c \<noteq> [] \<and> conn \<noteq> None"
  by (auto simp add: is_sam_account_unique_def split: option.splits if_splits)

lemma variations_verified:
  "variations first last' candidate conn as = Some r \<Longrightarrow> is_sam_account_unique conn r"
  by (induction as) (auto simp add: Let_def split: if_splits)

lemma generator_verified:
  "auto_generate_sam_account first0 last0 conn n = Inr (Some r) \<Longrightarrow> is_sam_account_unique conn r"
  by (auto simp add: auto_generate_sam_account_def Let_def
      split: if_splits list.splits dest: variations_verified)
















lemma slice_to_take: "0 \<le> k \<Longrightarrow> slice_to s k = take (nat k) s"
  by (simp add: slice_to_def)
























text \<open>
  C1, as the code has it. For a first and a last name that are non-empty, trimmed and
  lower-cased, with \<open>first.last\<close> of at most 20 characters: when no name exists,
  the generator of src/helpers.py returns \<open>first.last\<close>; when every name is unique,
  the generator of src/UserEditor/helpers.py, the one the user window calls, returns
  the first initial, a dot and the last name, sanitized.
\<close>

theorem first_candidate_returned:
  assumes "strip first = first" and "lower first = first"
    and "strip last' = last'" and "lower last' = last'"
    and "first \<noteq> []" and "last' \<noteq> []"
    and "length (first @ ''.'' @ last') \<le> 20"
  shows "((\<forall>c. \<not> check_sam_account_exists c conn) \<longrightarrow>
            root_auto_generate_sam_account first last' conn = Some (first @ ''.'' @ last')) \<and>
         ((\<forall>c. c \<noteq> [] \<longrightarrow> is_sam_account_unique conn c) \<longrightarrow>
            auto_generate_sam_account first last' conn max_attempts =
              Inr (Some (sanitize (hd first # ''.'' @ last'))))"
proof (intro conjI impI)
  assume "\<forall>c. \<not> check_sam_account_exists c conn"
  then show "root_auto_generate_sam_account first last' conn = Some (first @ ''.'' @ last')"
    using assms
    by (simp add: root_auto_generate_sam_account_def root_candidates_def Let_def)
next
  assume u: "\<forall>c. c \<noteq> [] \<longrightarrow> is_sam_account_unique conn c"
  then have "is_sam_account_unique conn ''x''" by simp
  then have c: "conn \<noteq> None" by (simp add: is_sam_account_unique_nonempty)
  obtain f fs where f: "first = f # fs" using assms(5) by (cases first) auto
  have "sanitize (f # ''.'' @ last') \<noteq> []" by (simp add: sanitize_def)
  with u have "is_sam_account_unique conn (sanitize (f # ''.'' @ last'))" by blast
  then show "auto_generate_sam_account first last' conn max_attempts =
              Inr (Some (sanitize (hd first # ''.'' @ last')))"
    using assms c f
    by (simp add: auto_generate_sam_account_def Let_def)
qed


theorem first_candidate_returned_witness:
  "root_auto_generate_sam_account ''jane'' ''doe'' (Some (directory [])) = Some ''jane.doe'' \<and>
   auto_generate_sam_account ''jane'' ''doe'' (Some (directory [])) 5 = Inr (Some ''j.doe'')"
proof -
  have e: "\<forall>c. \<not> check_sam_account_exists c (Some (directory []))"
    by (simp add: check_sam_account_exists_def directory_def)
  have u: "\<forall>c. c \<noteq> [] \<longrightarrow> is_sam_account_unique (Some (directory [])) c"
    by (simp add: is_sam_account_unique_def directory_def)
  have s: "strip ''jane'' = ''jane''" "lower ''jane'' = ''jane''"
    "strip ''doe'' = ''doe''" "lower ''doe'' = ''doe''"
    by (simp_all add: strip_def lower_def isspace_def lower_char_def)
  have n: "''jane'' \<noteq> []" "''doe'' \<noteq> []" "length (''jane'' @ ''.'' @ ''doe'') \<le> 20"
    by simp_all
  show ?thesis
    using first_candidate_returned [OF s n, of "Some (directory [])" 5] e u
    by (simp add: sanitize_def valid_chars_def)
qed


text \<open>
  C1 as stated fails for the generator the window calls: on an empty directory it
  returns \<open>j.doe\<close> for Jane Doe, not \<open>jane.doe\<close>.
\<close>

theorem first_candidate_returned_counterexample:
  "check_sam_account_exists ''jane.doe'' (Some (directory [])) = False \<and>
   is_sam_account_unique (Some (directory [])) ''jane.doe'' = True \<and>
   auto_generate_sam_account ''jane'' ''doe'' (Some (directory [])) 5 = Inr (Some ''j.doe'')"
  by code_simp






section \<open>Properties of auto_update_fields and create_user\<close>

lemma contractor_suffix_take: "contractor_suffix c = take 17 c @ ''-c''"
  by (simp add: contractor_suffix_def slice_to_def)

lemma status_of_write_new_user:
  "sam_account_edit (fst (write_new_user w conn dn attrs)) = sam_account_edit w"
  by (simp add: write_new_user_def Let_def split: outcome.splits bool.splits)


text \<open>
  C7, as the code has it. When the contractor box is checked and the generator returns
  a candidate, that candidate passed the existence check in its bare form, and the
  name put into the account field by \<open>auto_update_fields\<close> and by \<open>create_user\<close>
  is the candidate cut to 17 characters followed by \<open>-c\<close>, at most 20 characters.
\<close>

theorem contractor_suffix_after_check:
  assumes "auto_generate_sam_account (strip (first_name_edit w)) (strip (last_name_edit w))
             (ldap_conn w) 5 = Inr (Some candidate)"
    and "strip (first_name_edit w) \<noteq> []" and "strip (last_name_edit w) \<noteq> []"
    and "contractor_chk w" and "mode w = CREATE"
  shows "is_sam_account_unique (ldap_conn w) candidate \<and>
         length (take 17 candidate @ ''-c'') \<le> 20 \<and>
         (\<not> sam_account_has_focus w \<longrightarrow>
            (\<exists>w'. auto_update_fields w = Inr w' \<and>
                  sam_account_edit w' = take 17 candidate @ ''-c'')) \<and>
         (strip (sam_account_edit w) = [] \<and> password_edit w \<noteq> [] \<and>
          password_edit w = confirm_password_edit w \<longrightarrow>
            (\<exists>w' ops. create_user w = Inr (w', ops) \<and>
                  sam_account_edit w' = take 17 candidate @ ''-c''))"
proof (intro conjI impI)
  show u: "is_sam_account_unique (ldap_conn w) candidate"
    using assms(1) by (rule generator_verified)
  then have ne: "candidate \<noteq> []" and c: "ldap_conn w \<noteq> None"
    using is_sam_account_unique_nonempty by blast+
  show "length (take 17 candidate @ ''-c'') \<le> 20" by simp
  show "\<exists>w'. auto_update_fields w = Inr w' \<and> sam_account_edit w' = take 17 candidate @ ''-c''"
    if "\<not> sam_account_has_focus w"
    using that assms ne
    by (simp add: auto_update_fields_def Let_def sync_upn_field_def contractor_suffix_take)
  show "\<exists>w' ops. create_user w = Inr (w', ops) \<and> sam_account_edit w' = take 17 candidate @ ''-c''"
    if p: "strip (sam_account_edit w) = [] \<and> password_edit w \<noteq> [] \<and>
          password_edit w = confirm_password_edit w"
  proof -
    from c obtain conn where conn: "ldap_conn w = Some conn" by auto
    from p have q: "confirm_password_edit w \<noteq> []" by auto
    show ?thesis
      using p q assms conn
      by (simp add: create_user_def sam_account_for_def Let_def contractor_suffix_take
          prod_eq_iff status_of_write_new_user)
  qed
qed


theorem contractor_suffix_after_check_witness:
  "(\<exists>w'. auto_update_fields contractor_window = Inr w' \<and> sam_account_edit w' = ''j.doe-c'') \<and>
   (\<exists>w' ops. create_user contractor_window = Inr (w', ops) \<and> sam_account_edit w' = ''j.doe-c'')"
proof -
  have g: "auto_generate_sam_account (strip (first_name_edit contractor_window))
             (strip (last_name_edit contractor_window)) (ldap_conn contractor_window) 5
           = Inr (Some ''j.doe'')"
    by code_simp
  have n: "strip (first_name_edit contractor_window) \<noteq> []"
    "strip (last_name_edit contractor_window) \<noteq> []"
    by code_simp+
  have k: "contractor_chk contractor_window" "mode contractor_window = CREATE"
    by (simp_all add: contractor_window_def blank_window_def)
  have o: "\<not> sam_account_has_focus contractor_window"
    "strip (sam_account_edit contractor_window) = []"
    "password_edit contractor_window \<noteq> []"
    "password_edit contractor_window = confirm_password_edit contractor_window"
    by (simp_all add: contractor_window_def blank_window_def strip_def)
  show ?thesis
    using contractor_suffix_after_check [OF g n k] o by simp
qed


text \<open>
  C7 as stated fails: for the contractor Jane Doe, on a directory where
  \<open>jane.doe-c\<close> does not exist and \<open>j.doe-c\<close> does, the name proposed is
  \<open>j.doe-c\<close>; the suffixed form is not checked.
\<close>

theorem contractor_suffix_after_check_counterexample:
  "is_sam_account_unique (ldap_conn contractor_window) ''jane.doe-c'' = True \<and>
   is_sam_account_unique (ldap_conn contractor_window) ''j.doe-c'' = False \<and>
   map_sum id sam_account_edit (auto_update_fields contractor_window) = Inr ''j.doe-c'' \<and>
   map_sum id (sam_account_edit \<circ> fst) (create_user contractor_window) = Inr ''j.doe-c''"
  by code_simp

lemma add_custom_attributes_keeps:
  "map_of attributes k = Some v \<Longrightarrow> map_of (add_custom_attributes cs attributes) k = Some v"
proof (induction cs arbitrary: attributes)
  case Nil
  then show ?case by simp
next
  case (Cons p cs)
  obtain a x where p: "p = (a, x)" by (cases p)
  from Cons.prems have k: "k \<in> fst ` set attributes"
    by (metis map_of_eq_None_iff option.distinct(1))
  show ?case
  proof (cases "a \<in> fst ` set attributes")
    case True
    with Cons show ?thesis by (simp add: p)
  next
    case False
    with k have "a \<noteq> k" by auto
    with Cons.prems have "map_of (AList.update a (VList (as_list x)) attributes) k = Some v"
      by (simp add: update_conv')
    with False Cons.IH show ?thesis by (simp add: p)
  qed
qed

lemma map_of_set_if_filled:
  "k \<noteq> a \<Longrightarrow> map_of (set_if_filled a t attributes) k = map_of attributes k"
  by (simp add: set_if_filled_def update_conv')

lemma new_user_uac:
  "map_of (new_user_attributes w first last' display_name sam_account upn password)
     ''userAccountControl'' = Some (VInt 66048)"
  unfolding new_user_attributes_def Let_def
  by (rule add_custom_attributes_keeps)
     (simp add: map_of_set_if_filled update_conv' split: option.splits)

lemma new_user_attributes_never_expires:
  "new_user_attributes (w\<lparr>never_expires_chk := b\<rparr>) = new_user_attributes w"
  by (simp add: new_user_attributes_def fun_eq_iff)

lemma add_to_groups_member:
  "Modify dn m \<in> set (add_to_groups groups new_user_dn names) \<Longrightarrow>
   m = [(''member'', [(MODIFY_ADD, [VStr new_user_dn])])]"
  by (induction names) (auto split: option.splits)

lemma add_to_groups_no_add:
  "Add dn attrs \<notin> set (add_to_groups groups new_user_dn names)"
  by (induction names) (auto split: option.splits)

lemma write_new_user_ops:
  assumes "write_new_user w conn dn attrs = (w', ops)"
  shows "(\<forall>dn' attrs'. Add dn' attrs' \<in> set ops \<longrightarrow> dn' = dn \<and> attrs' = attrs) \<and>
         (\<forall>dn' m. Modify dn' m \<in> set ops \<and> map_of m ''pwdLastSet'' \<noteq> None \<longrightarrow>
            change_password_chk w \<and> dn' = dn \<and> m = pwd_last_set) \<and>
         (status_label w' = ''User created successfully'' \<longrightarrow>
            ops = Add dn attrs # (if change_password_chk w then [Modify dn pwd_last_set] else [])
                    @ add_to_groups (all_groups w) dn (selected_groups w) @ [Unbind])"
  using assms add_to_groups_no_add [of _ _ "all_groups w" dn "selected_groups w"]
  by (auto simp add: write_new_user_def Let_def pwd_last_set_def
      split: outcome.splits bool.splits if_splits dest!: add_to_groups_member)

lemma write_new_user_never_expires:
  "snd (write_new_user (w\<lparr>never_expires_chk := b\<rparr>) conn dn attrs) = snd (write_new_user w conn dn attrs)"
  by (simp add: write_new_user_def Let_def split: outcome.splits bool.splits)

lemma write_new_user_ops_depend:
  "change_password_chk w1 = change_password_chk w2 \<Longrightarrow> all_groups w1 = all_groups w2 \<Longrightarrow>
   selected_groups w1 = selected_groups w2 \<Longrightarrow>
   snd (write_new_user w1 conn dn attrs) = snd (write_new_user w2 conn dn attrs)"
  by (simp add: write_new_user_def Let_def split: outcome.splits bool.splits)

lemma sam_account_for_never_expires:
  "sam_account_for (w\<lparr>never_expires_chk := b\<rparr>) = sam_account_for w"
  by (simp add: sam_account_for_def fun_eq_iff split: sum.splits option.splits)

lemma create_user_cases:
  assumes "create_user w = Inr (w', ops)"
  shows "(ops = [] \<and> status_label w' \<noteq> ''User created successfully'') \<or>
         (\<exists>w2 conn dn first last' display_name sam_account upn password.
            write_new_user w2 conn dn
              (new_user_attributes w first last' display_name sam_account upn password) = (w', ops) \<and>
            change_password_chk w2 = change_password_chk w \<and>
            all_groups w2 = all_groups w \<and> selected_groups w2 = selected_groups w)"
proof (cases "sam_account_for w (strip (first_name_edit w)) (strip (last_name_edit w))
                (strip (sam_account_edit w))")
  case (Inl e)
  with assms show ?thesis
    by (auto simp add: create_user_def Let_def split: if_splits)
next
  case (Inr r)
  show ?thesis
  proof (cases r)
    case None
    with Inr assms show ?thesis
      by (auto simp add: create_user_def Let_def split: if_splits)
  next
    case (Some sam)
    show ?thesis
    proof (cases "ldap_conn w")
      case None
      with Inr Some assms show ?thesis
        by (auto simp add: create_user_def Let_def split: if_splits)
    next
      case (Some conn)
      with Inr \<open>r = Some sam\<close> assms show ?thesis
        unfolding create_user_def Let_def
        by (simp split: if_splits) fastforce+
    qed
  qed
qed

lemma create_user_never_expires:
  "map_sum id snd (create_user (w\<lparr>never_expires_chk := b\<rparr>)) = map_sum id snd (create_user w)"
proof (cases "sam_account_for w (strip (first_name_edit w)) (strip (last_name_edit w))
                (strip (sam_account_edit w))")
  case (Inl e)
  then show ?thesis
    by (simp add: create_user_def Let_def sam_account_for_never_expires)
next
  case (Inr r)
  show ?thesis
  proof (cases r)
    case None
    with Inr show ?thesis
      by (simp add: create_user_def Let_def sam_account_for_never_expires)
  next
    case (Some sam)
    show ?thesis
    proof (cases "ldap_conn w")
      case None
      with Inr Some show ?thesis
        by (simp add: create_user_def Let_def sam_account_for_never_expires)
    next
      case (Some conn)
      with Inr \<open>r = Some sam\<close> show ?thesis
        by (auto simp add: create_user_def Let_def sam_account_for_never_expires
            new_user_attributes_never_expires intro!: write_new_user_ops_depend)
    qed
  qed
qed

lemma create_user_ops:
  assumes c: "create_user w = Inr (w', ops)"
  shows "(\<forall>dn attrs. Add dn attrs \<in> set ops \<longrightarrow>
         map_of attrs ''userAccountControl'' = Some (VInt 66048)) \<and>
      (\<forall>dn m. Modify dn m \<in> set ops \<and> map_of m ''pwdLastSet'' \<noteq> None \<longrightarrow>
         change_password_chk w \<and> m = pwd_last_set) \<and>
      (status_label w' = ''User created successfully'' \<longrightarrow>
         (\<exists>dn attrs.
            ops = Add dn attrs # (if change_password_chk w then [Modify dn pwd_last_set] else [])
                    @ add_to_groups (all_groups w) dn (selected_groups w) @ [Unbind]))"
  using create_user_cases [OF c]
proof
  assume "ops = [] \<and> status_label w' \<noteq> ''User created successfully''"
  then show ?thesis by simp
next
  assume "\<exists>w2 conn dn first last' display_name sam_account upn password.
            write_new_user w2 conn dn
              (new_user_attributes w first last' display_name sam_account upn password) = (w', ops) \<and>
            change_password_chk w2 = change_password_chk w \<and>
            all_groups w2 = all_groups w \<and> selected_groups w2 = selected_groups w"
  then obtain w2 conn dn first last' display_name sam_account upn password where
    w: "write_new_user w2 conn dn
          (new_user_attributes w first last' display_name sam_account upn password) = (w', ops)" and
    e: "change_password_chk w2 = change_password_chk w" "all_groups w2 = all_groups w"
       "selected_groups w2 = selected_groups w"
    by blast
  note o = write_new_user_ops [OF w, unfolded e]
  have 1: "\<forall>dn attrs. Add dn attrs \<in> set ops \<longrightarrow>
         map_of attrs ''userAccountControl'' = Some (VInt 66048)"
    using o new_user_uac by blast
  have 2: "\<forall>dn m. Modify dn m \<in> set ops \<and> map_of m ''pwdLastSet'' \<noteq> None \<longrightarrow>
         change_password_chk w \<and> m = pwd_last_set"
    using o by blast
  have 3: "status_label w' = ''User created successfully'' \<longrightarrow>
         (\<exists>dn attrs.
            ops = Add dn attrs # (if change_password_chk w then [Modify dn pwd_last_set] else [])
                    @ add_to_groups (all_groups w) dn (selected_groups w) @ [Unbind])"
    using o by blast
  from 1 2 3 show ?thesis by (intro conjI)
qed


text \<open>
  C10. The operations \<open>create_user\<close> sends do not depend on the box "Password never
  expires"; every entry it adds carries \<open>userAccountControl\<close> 66048; a modify of
  \<open>pwdLastSet\<close> is sent only when "User must change password at next logon" is
  checked, and sets it to 0; and a successful creation is the add, that modify when
  the box is checked, the group memberships and the unbind.
\<close>

theorem new_user_account_control:
  "map_sum id snd (create_user (w\<lparr>never_expires_chk := b\<rparr>)) = map_sum id snd (create_user w) \<and>
   (create_user w = Inr (w', ops) \<longrightarrow>
      (\<forall>dn attrs. Add dn attrs \<in> set ops \<longrightarrow>
         map_of attrs ''userAccountControl'' = Some (VInt 66048)) \<and>
      (\<forall>dn m. Modify dn m \<in> set ops \<and> map_of m ''pwdLastSet'' \<noteq> None \<longrightarrow>
         change_password_chk w \<and> m = pwd_last_set) \<and>
      (status_label w' = ''User created successfully'' \<longrightarrow>
         (\<exists>dn attrs.
            ops = Add dn attrs # (if change_password_chk w then [Modify dn pwd_last_set] else [])
                    @ add_to_groups (all_groups w) dn (selected_groups w) @ [Unbind])))"
proof (rule conjI)
  show "map_sum id snd (create_user (w\<lparr>never_expires_chk := b\<rparr>)) = map_sum id snd (create_user w)"
    by (rule create_user_never_expires)
  show "create_user w = Inr (w', ops) \<longrightarrow>
      (\<forall>dn attrs. Add dn attrs \<in> set ops \<longrightarrow>
         map_of attrs ''userAccountControl'' = Some (VInt 66048)) \<and>
      (\<forall>dn m. Modify dn m \<in> set ops \<and> map_of m ''pwdLastSet'' \<noteq> None \<longrightarrow>
         change_password_chk w \<and> m = pwd_last_set) \<and>
      (status_label w' = ''User created successfully'' \<longrightarrow>
         (\<exists>dn attrs.
            ops = Add dn attrs # (if change_password_chk w then [Modify dn pwd_last_set] else [])
                    @ add_to_groups (all_groups w) dn (selected_groups w) @ [Unbind]))"
    by (rule impI) (rule create_user_ops)
qed


theorem new_user_account_control_witness:
  "map_sum id snd (create_user contractor_window) =
     Inr [Add ''CN=Jane Doe,OU=Staff,DC=corp,DC=example,DC=com''
            [(''objectClass'',
               VList [VStr ''top'', VStr ''person'', VStr ''organizationalPerson'',
                      VStr ''user'']),
             (''cn'', VStr ''Jane Doe''), (''sn'', VStr ''Doe''),
             (''givenName'', VStr ''Jane''), (''displayName'', VStr ''Jane Doe''),
             (''sAMAccountName'', VStr ''j.doe-c''), (''userPrincipalName'', VStr []),
             (''mail'', VStr []), (''userAccountControl'', VInt 66048),
             (''unicodePwd'', VBytes [34, 0, 65, 0, 98, 0, 49, 0, 34, 0]),
             (''c'', VStr ''US''), (''co'', VStr ''United States''),
             (''countryCode'', VStr ''840'')],
          Unbind] \<and>
   map_sum id snd (create_user (contractor_window\<lparr>never_expires_chk := False\<rparr>)) =
     Inr [Add ''CN=Jane Doe,OU=Staff,DC=corp,DC=example,DC=com''
            [(''objectClass'',
               VList [VStr ''top'', VStr ''person'', VStr ''organizationalPerson'',
                      VStr ''user'']),
             (''cn'', VStr ''Jane Doe''), (''sn'', VStr ''Doe''),
             (''givenName'', VStr ''Jane''), (''displayName'', VStr ''Jane Doe''),
             (''sAMAccountName'', VStr ''j.doe-c''), (''userPrincipalName'', VStr []),
             (''mail'', VStr []), (''userAccountControl'', VInt 66048),
             (''unicodePwd'', VBytes [34, 0, 65, 0, 98, 0, 49, 0, 34, 0]),
             (''c'', VStr ''US''), (''co'', VStr ''United States''),
             (''countryCode'', VStr ''840'')],
          Unbind] \<and>
   map_sum id snd (create_user (contractor_window\<lparr>change_password_chk := True\<rparr>)) =
     Inr [Add ''CN=Jane Doe,OU=Staff,DC=corp,DC=example,DC=com''
            [(''objectClass'',
               VList [VStr ''top'', VStr ''person'', VStr ''organizationalPerson'',
                      VStr ''user'']),
             (''cn'', VStr ''Jane Doe''), (''sn'', VStr ''Doe''),
             (''givenName'', VStr ''Jane''), (''displayName'', VStr ''Jane Doe''),
             (''sAMAccountName'', VStr ''j.doe-c''), (''userPrincipalName'', VStr []),
             (''mail'', VStr []), (''userAccountControl'', VInt 66048),
             (''unicodePwd'', VBytes [34, 0, 65, 0, 98, 0, 49, 0, 34, 0]),
             (''c'', VStr ''US''), (''co'', VStr ''United States''),
             (''countryCode'', VStr ''840'')],
          Modify ''CN=Jane Doe,OU=Staff,DC=corp,DC=example,DC=com''
            [(''pwdLastSet'', [(MODIFY_REPLACE, [VInt 0])])],
          Unbind]"
proof -
  have c1: "map_sum id snd (create_user contractor_window) =
     Inr [Add ''CN=Jane Doe,OU=Staff,DC=corp,DC=example,DC=com''
            [(''objectClass'',
               VList [VStr ''top'', VStr ''person'', VStr ''organizationalPerson'',
                      VStr ''user'']),
             (''cn'', VStr ''Jane Doe''), (''sn'', VStr ''Doe''),
             (''givenName'', VStr ''Jane''), (''displayName'', VStr ''Jane Doe''),
             (''sAMAccountName'', VStr ''j.doe-c''), (''userPrincipalName'', VStr []),
             (''mail'', VStr []), (''userAccountControl'', VInt 66048),
             (''unicodePwd'', VBytes [34, 0, 65, 0, 98, 0, 49, 0, 34, 0]),
             (''c'', VStr ''US''), (''co'', VStr ''United States''),
             (''countryCode'', VStr ''840'')],
          Unbind]"
    by code_simp
  have c2: "map_sum id snd (create_user (contractor_window\<lparr>change_password_chk := True\<rparr>)) =
     Inr [Add ''CN=Jane Doe,OU=Staff,DC=corp,DC=example,DC=com''
            [(''objectClass'',
               VList [VStr ''top'', VStr ''person'', VStr ''organizationalPerson'',
                      VStr ''user'']),
             (''cn'', VStr ''Jane Doe''), (''sn'', VStr ''Doe''),
             (''givenName'', VStr ''Jane''), (''displayName'', VStr ''Jane Doe''),
             (''sAMAccountName'', VStr ''j.doe-c''), (''userPrincipalName'', VStr []),
             (''mail'', VStr []), (''userAccountControl'', VInt 66048),
             (''unicodePwd'', VBytes [34, 0, 65, 0, 98, 0, 49, 0, 34, 0]),
             (''c'', VStr ''US''), (''co'', VStr ''United States''),
             (''countryCode'', VStr ''840'')],
          Modify ''CN=Jane Doe,OU=Staff,DC=corp,DC=example,DC=com''
            [(''pwdLastSet'', [(MODIFY_REPLACE, [VInt 0])])],
          Unbind]"
    by code_simp
  obtain w' ops where r: "create_user contractor_window = Inr (w', ops)"
    using c1 by (cases "create_user contractor_window") auto
  from new_user_account_control [where w = contractor_window and b = False and w' = w' and ops = ops] r c1 c2 show ?thesis
    by simp
qed

end
